theory Spec2Isabelle
  imports Complex_Main "HOL-Library.Word"
begin

section \<open>The Python datasource adapter of python-mapnik\<close>

text \<open>
  This theory embeds \<^verbatim>\<open>src/python_datasource.cpp\<close>: the class
  \<^verbatim>\<open>python_datasource\<close>, which answers the host toolkit's datasource interface by
  reading attributes of a Python object, and the class \<^verbatim>\<open>python_featureset\<close>, which
  walks a Python iterable.

  The file uses three things it does not define: the Python interpreter, the
  Boost.Python conversions, and the host's \<^verbatim>\<open>box2d\<close>. They are modelled as follows.
  \<^item> A Python object is a value of the datatype \<open>pyobj\<close>. Attribute values are stable:
    two lookups of the same attribute give the same answer (a slot may still raise,
    as a property whose getter raises does).
  \<^item> Every computation returns the list of interpreter events it caused together with
    its outcome, a C++ exception or a value.
  \<^item> A \<^verbatim>\<open>double\<close> is a value of a type parameter \<open>'d\<close>: the adapter only copies and
    compares doubles. What the host does with them (\<^verbatim>\<open>box2d::intersects\<close>, the
    default box, the conversion of a Python integer) is a parameter, the
    record \<open>platform\<close>.
\<close>

subsection \<open>Host-side data\<close>

record 'd box2d =
  minx :: 'd
  miny :: 'd
  maxx :: 'd
  maxy :: 'd

record 'd coord2d =
  coord_x :: 'd
  coord_y :: 'd

record 'd query =
  bbox :: "'d box2d"

text \<open>The parts of the host toolkit and of the interpreter that the file calls.\<close>

record 'd platform =
  box2d_init :: "'d box2d"  \<comment> \<open>the default-constructed \<^verbatim>\<open>box2d<double>\<close>\<close>
  intersects :: "'d box2d \<Rightarrow> 'd box2d \<Rightarrow> bool"  \<comment> \<open>\<^verbatim>\<open>box2d::intersects\<close>\<close>
  PyLong_AsDouble :: "int \<Rightarrow> 'd option"  \<comment> \<open>\<open>None\<close>: the integer is too large for a double\<close>

text \<open>The C++ values that the adapter passes to a Python callable.\<close>

datatype 'd cpp_arg = Arg_query "'d query" | Arg_point "'d coord2d"

subsection \<open>Python errors and Python objects\<close>

text \<open>
  The interpreter's error indicator as \<^verbatim>\<open>PyErr_Fetch\<close> returns it: the exception class,
  the exception value (its message) when there is one, the traceback lines when there
  are any.
\<close>

datatype pyerr = PyErr (err_type: string) (err_value: "string option") (err_tb: "string list option")

datatype ('d, 'f) pyobj =
    PyNone
  | PyInt int
  | PyFloat 'd
  | PyStr string
  | PyFeature 'f
  | PyIterable "('d, 'f) pyobj list"
  | PyCallable "'d cpp_arg list \<Rightarrow> pyerr + ('d, 'f) pyobj"
  | PyObject string "(string \<times> (pyerr + ('d, 'f) pyobj)) list"

text \<open>
  \<open>PyObject cls slots\<close> is an instance of the class \<open>cls\<close>; a slot holds the value of
  the attribute, or the error that reading it raises.
\<close>

fun type_name :: "('d, 'f) pyobj \<Rightarrow> string" where
  "type_name PyNone = ''NoneType''"
| "type_name (PyInt _) = ''int''"
| "type_name (PyFloat _) = ''float''"
| "type_name (PyStr _) = ''str''"
| "type_name (PyFeature _) = ''Feature''"
| "type_name (PyIterable _) = ''list''"
| "type_name (PyCallable _) = ''function''"
| "type_name (PyObject cls _) = cls"

text \<open>A name between single quotes, as the interpreter prints it in its messages.\<close>

definition quoted :: "string \<Rightarrow> string" where
  "quoted s = CHR 0x27 # s @ [CHR 0x27]"

definition attribute_error :: "string \<Rightarrow> string \<Rightarrow> pyerr" where
  "attribute_error cls key =
     PyErr ''AttributeError''
       (Some (quoted cls @ '' object has no attribute '' @ quoted key)) None"

definition type_error :: "string \<Rightarrow> pyerr" where
  "type_error msg = PyErr ''TypeError'' (Some msg) None"

definition overflow_error :: "string \<Rightarrow> pyerr" where
  "overflow_error msg = PyErr ''OverflowError'' (Some msg) None"

subsection \<open>Computations: interpreter events and C++ exceptions\<close>

datatype 'd event =
    Gil_ensure  \<comment> \<open>\<^verbatim>\<open>PyGILState_Ensure\<close>\<close>
  | Gil_release  \<comment> \<open>\<^verbatim>\<open>PyGILState_Release\<close>\<close>
  | GetAttr string  \<comment> \<open>an attribute lookup\<close>
  | Call "'d cpp_arg list"  \<comment> \<open>a call of a Python callable, with its arguments\<close>
  | Iter_next  \<comment> \<open>\<^verbatim>\<open>PyIter_Next\<close>\<close>
  | Format_exception  \<comment> \<open>the work of \<^verbatim>\<open>extractException\<close>\<close>

datatype cpp_exception =
    Error_already_set pyerr  \<comment> \<open>\<^verbatim>\<open>boost::python::error_already_set\<close>, with the pending Python error\<close>
  | Datasource_exception string  \<comment> \<open>\<^verbatim>\<open>mapnik::datasource_exception\<close>, with its message\<close>
  | Bad_optional_access  \<comment> \<open>\<^verbatim>\<open>boost::bad_optional_access\<close>\<close>

type_synonym ('d, 'a) run = "'d event list \<times> (cpp_exception + 'a)"

definition ret :: "'a \<Rightarrow> ('d, 'a) run" where
  "ret v = ([], Inr v)"

definition throw :: "cpp_exception \<Rightarrow> ('d, 'a) run" where
  "throw e = ([], Inl e)"

definition and_then :: "('d, 'a) run \<Rightarrow> ('a \<Rightarrow> ('d, 'b) run) \<Rightarrow> ('d, 'b) run" where
  "and_then m f =
     (case m of
        (t, Inl e) \<Rightarrow> (t, Inl e)
      | (t, Inr v) \<Rightarrow> (case f v of (t', r) \<Rightarrow> (t @ t', r)))"

text \<open>
  The class \<^verbatim>\<open>ensure_gil\<close>: the lock is taken where the guard is declared and released
  when its scope is left, by a return or by an exception.
\<close>

definition ensure_gil :: "('d, 'a) run \<Rightarrow> ('d, 'a) run" where
  "ensure_gil m = (case m of (t, r) \<Rightarrow> (Gil_ensure # t @ [Gil_release], r))"

subsection \<open>\<^verbatim>\<open>extractException\<close>\<close>

definition PyErr_NormalizeException :: "pyerr \<Rightarrow> pyerr" where
  "PyErr_NormalizeException e =
     (case err_value e of
        None \<Rightarrow> PyErr (err_type e) (Some []) (err_tb e)
      | Some _ \<Rightarrow> e)"

text \<open>Python's \<^verbatim>\<open>traceback.format_exception\<close>: the traceback, then the class and the message.\<close>

definition format_exception :: "pyerr \<Rightarrow> string list" where
  "format_exception e =
     (case err_tb e of
        None \<Rightarrow> []
      | Some tb \<Rightarrow> ''Traceback (most recent call last):\<newline>'' # tb)
     @ [err_type e
        @ (case err_value e of None \<Rightarrow> [] | Some [] \<Rightarrow> [] | Some msg \<Rightarrow> '': '' @ msg)
        @ ''\<newline>'']"

definition str_class :: "string \<Rightarrow> string" where
  "str_class cls = ''<class '' @ cls @ ''>''"

definition extractException :: "pyerr \<Rightarrow> string" where
  "extractException e =
     (let n = PyErr_NormalizeException e in
      case err_value n of
        None \<Rightarrow> str_class (err_type n)
      | Some _ \<Rightarrow> concat (format_exception n))"

text \<open>
  The handler that closes every operation of the datasource:
  \<^verbatim>\<open>catch (boost::python::error_already_set) { throw datasource_exception(extractException()); }\<close>
  Any other exception passes through it.
\<close>

definition try_catch :: "('d, 'a) run \<Rightarrow> ('d, 'a) run" where
  "try_catch m =
     (case m of
        (t, Inl (Error_already_set e)) \<Rightarrow>
          (t @ [Format_exception], Inl (Datasource_exception (extractException e)))
      | _ \<Rightarrow> m)"

subsection \<open>Boost.Python operations\<close>

text \<open>\<^verbatim>\<open>obj.attr(key)\<close>, converted to an object: the lookup raises when the attribute is absent.\<close>

fun attr :: "('d, 'f) pyobj \<Rightarrow> string \<Rightarrow> ('d, ('d, 'f) pyobj) run" where
  "attr (PyObject cls slots) key =
     ([GetAttr key],
      case map_of slots key of
        None \<Rightarrow> Inl (Error_already_set (attribute_error cls key))
      | Some (Inl e) \<Rightarrow> Inl (Error_already_set e)
      | Some (Inr v) \<Rightarrow> Inr v)"
| "attr v key = ([GetAttr key], Inl (Error_already_set (attribute_error (type_name v) key)))"

fun is_none :: "('d, 'f) pyobj \<Rightarrow> bool" where
  "is_none PyNone = True"
| "is_none _ = False"

text \<open>\<^verbatim>\<open>boost::optional::value()\<close>.\<close>

definition optional_value :: "'a option \<Rightarrow> ('d, 'a) run" where
  "optional_value p = (case p of None \<Rightarrow> throw Bad_optional_access | Some v \<Rightarrow> ret v)"

text \<open>
  \<^verbatim>\<open>extract<long>(obj)\<close>: only a Python integer converts, and only when it fits the 64-bit
  \<^verbatim>\<open>long\<close>.
\<close>

fun extract_long :: "('d, 'f) pyobj \<Rightarrow> ('d, 64 word) run" where
  "extract_long (PyInt i) =
     (if - (2 ^ 63) \<le> i \<and> i < 2 ^ 63 then ret (word_of_int i)
      else throw (Error_already_set (overflow_error ''Python int too large to convert to C long'')))"
| "extract_long v =
     throw (Error_already_set (type_error
       (''No registered converter was able to produce a C++ rvalue of type long from this Python object of type ''
        @ type_name v)))"

text \<open>
  \<^verbatim>\<open>extract<double> ex(obj)\<close>: \<^verbatim>\<open>ex.check()\<close> accepts Python floats and integers;
  \<^verbatim>\<open>ex()\<close> converts, and raises for an integer beyond the range of a double.
\<close>

fun extract_double_check :: "('d, 'f) pyobj \<Rightarrow> bool" where
  "extract_double_check (PyFloat _) = True"
| "extract_double_check (PyInt _) = True"
| "extract_double_check _ = False"

fun extract_double :: "'d platform \<Rightarrow> ('d, 'f) pyobj \<Rightarrow> ('d, 'd) run" where
  "extract_double pf (PyFloat d) = ret d"
| "extract_double pf (PyInt i) =
     (case PyLong_AsDouble pf i of
        Some d \<Rightarrow> ret d
      | None \<Rightarrow> throw (Error_already_set (overflow_error ''int too large to convert to float'')))"
| "extract_double pf v =
     throw (Error_already_set (type_error
       (''No registered converter was able to produce a C++ rvalue of type double from this Python object of type ''
        @ type_name v)))"

text \<open>A call \<^verbatim>\<open>f(args)\<close> of a Python object.\<close>

fun call :: "('d, 'f) pyobj \<Rightarrow> 'd cpp_arg list \<Rightarrow> ('d, ('d, 'f) pyobj) run" where
  "call (PyCallable g) args =
     ([Call args], case g args of Inl e \<Rightarrow> Inl (Error_already_set e) | Inr v \<Rightarrow> Inr v)"
| "call v args =
     ([Call args], Inl (Error_already_set (type_error (quoted (type_name v) @ '' object is not callable''))))"

text \<open>\<^verbatim>\<open>extract<feature_ptr>(obj)\<close>: a wrapped feature converts, and \<^verbatim>\<open>None\<close> converts to the null pointer.\<close>

fun extract_feature_ptr :: "('d, 'f) pyobj \<Rightarrow> ('d, 'f option) run" where
  "extract_feature_ptr (PyFeature f) = ret (Some f)"
| "extract_feature_ptr PyNone = ret None"
| "extract_feature_ptr v =
     throw (Error_already_set (type_error
       (''No registered converter was able to extract a C++ pointer to type feature_impl from this Python object of type ''
        @ type_name v)))"

subsection \<open>\<^verbatim>\<open>boost::python::stl_input_iterator\<close>\<close>

record ('d, 'f) stl_input_iterator =
  iter_it :: "('d, 'f) pyobj list"  \<comment> \<open>\<^verbatim>\<open>it_\<close>: the Python iterator, as the items it has yet to yield\<close>
  iter_ob :: "('d, 'f) pyobj option"  \<comment> \<open>\<^verbatim>\<open>ob_\<close>: the current item, null at the end\<close>

text \<open>The default-constructed iterator, which marks the end.\<close>

definition end_it :: "('d, 'f) stl_input_iterator" where
  "end_it = \<lparr>iter_it = [], iter_ob = None\<rparr>"

text \<open>Two iterators are equal when both or neither have a current item.\<close>

definition iterator_equal :: "('d, 'f) stl_input_iterator \<Rightarrow> ('d, 'f) stl_input_iterator \<Rightarrow> bool" where
  "iterator_equal a b = ((iter_ob a = None) = (iter_ob b = None))"

text \<open>
  \<^verbatim>\<open>ob.attr("__iter__")()\<close>. Every iterable object is represented by \<open>PyIterable\<close> or is a
  string; for the other objects the lookup of \<^verbatim>\<open>__iter__\<close> raises.
\<close>

fun py_iter :: "('d, 'f) pyobj \<Rightarrow> ('d, ('d, 'f) pyobj list) run" where
  "py_iter (PyIterable items) = ([GetAttr ''__iter__'', Call []], Inr items)"
| "py_iter (PyStr s) = ([GetAttr ''__iter__'', Call []], Inr (map (\<lambda>c. PyStr [c]) s))"
| "py_iter v =
     ([GetAttr ''__iter__''], Inl (Error_already_set (attribute_error (type_name v) ''__iter__'')))"

text \<open>
  \<^verbatim>\<open>PyIter_Next\<close> on the items that are left: the first of them becomes the current
  item, and there is no current item when none is left.
\<close>

definition PyIter_Next :: "('d, 'f) pyobj list \<Rightarrow> ('d, 'f) stl_input_iterator" where
  "PyIter_Next items =
     (case items of
        [] \<Rightarrow> \<lparr>iter_it = [], iter_ob = None\<rparr>
      | v # vs \<Rightarrow> \<lparr>iter_it = vs, iter_ob = Some v\<rparr>)"

definition increment :: "('d, 'f) stl_input_iterator \<Rightarrow> ('d, ('d, 'f) stl_input_iterator) run" where
  "increment i = ([Iter_next], Inr (PyIter_Next (iter_it i)))"

text \<open>The constructor fetches the first item.\<close>

definition stl_input_iterator :: "('d, 'f) pyobj \<Rightarrow> ('d, ('d, 'f) stl_input_iterator) run" where
  "stl_input_iterator obj =
     and_then (py_iter obj) (\<lambda>items. increment \<lparr>iter_it = items, iter_ob = None\<rparr>)"

subsection \<open>\<^verbatim>\<open>python_datasource\<close>\<close>

definition get_param :: "('d, 'f) pyobj \<Rightarrow> string \<Rightarrow> ('d, ('d, 'f) pyobj option) run" where
  "get_param datasource key =
     and_then (attr datasource key) (\<lambda>v.
       if is_none v then ret None else ret (Some v))"

definition has_param :: "('d, 'f) pyobj \<Rightarrow> string \<Rightarrow> ('d, bool) run" where
  "has_param datasource key =
     and_then (get_param datasource key) (\<lambda>p. ret (\<not> (p = None)))"

text \<open>\<^verbatim>\<open>python_datasource::type()\<close>; the cast to \<^verbatim>\<open>datasource_t\<close> keeps the integer.\<close>

definition datasource_type :: "('d, 'f) pyobj \<Rightarrow> ('d, 64 word) run" where
  "datasource_type datasource =
     try_catch (ensure_gil (
       and_then (get_param datasource ''data_type'') (\<lambda>p.
       and_then (optional_value p) (\<lambda>data_type.
       and_then (extract_long data_type) (\<lambda>data_type_integer.
       ret data_type_integer)))))"

text \<open>
  One field of the envelope, the block that \<^verbatim>\<open>envelope()\<close> repeats four times: look the
  attribute up, check that it converts, convert it.
\<close>

definition envelope_field :: "'d platform \<Rightarrow> ('d, 'f) pyobj \<Rightarrow> string \<Rightarrow> ('d, 'd) run" where
  "envelope_field pf py_envelope name =
     and_then (attr py_envelope name) (\<lambda>a.
       if \<not> extract_double_check a
       then throw (Datasource_exception (''Python: could not convert envelope.'' @ name))
       else extract_double pf a)"

definition envelope :: "'d platform \<Rightarrow> ('d, 'f) pyobj \<Rightarrow> ('d, 'd box2d) run" where
  "envelope pf datasource =
     try_catch (ensure_gil (
       and_then (has_param datasource ''envelope'') (\<lambda>present.
       if \<not> present
       then throw (Datasource_exception ''Python: could not access envelope property'')
       else
         and_then (get_param datasource ''envelope'') (\<lambda>p.
         and_then (optional_value p) (\<lambda>py_envelope.
         if is_none py_envelope
         then throw (Datasource_exception ''Python: envelope property is None'')
         else
           and_then (envelope_field pf py_envelope ''minx'') (\<lambda>x0.
           and_then (envelope_field pf py_envelope ''miny'') (\<lambda>y0.
           and_then (envelope_field pf py_envelope ''maxx'') (\<lambda>x1.
           and_then (envelope_field pf py_envelope ''maxy'') (\<lambda>y1.
           ret ((box2d_init pf)\<lparr>minx := x0, miny := y0, maxx := x1, maxy := y1\<rparr>))))))))))"

text \<open>The four fields, in the order in which \<^verbatim>\<open>envelope()\<close> reads them.\<close>

definition envelope_fields :: "string list" where
  "envelope_fields = [''minx'', ''miny'', ''maxx'', ''maxy'']"

definition get_geometry_type :: "('d, 'f) pyobj \<Rightarrow> ('d, 64 word option) run" where
  "get_geometry_type datasource =
     try_catch (ensure_gil (
       and_then (has_param datasource ''geometry_type'') (\<lambda>present.
       if \<not> present then ret None
       else
         and_then (get_param datasource ''geometry_type'') (\<lambda>p.
         and_then (optional_value p) (\<lambda>py_geometry_type.
         if is_none py_geometry_type then ret None
         else
           and_then (extract_long py_geometry_type) (\<lambda>geom_type_integer.
           ret (Some geom_type_integer)))))))"

subsection \<open>\<^verbatim>\<open>python_featureset\<close>\<close>

record ('d, 'f) python_featureset =
  begin_it :: "('d, 'f) stl_input_iterator"

definition python_featureset :: "('d, 'f) pyobj \<Rightarrow> ('d, ('d, 'f) python_featureset) run" where
  "python_featureset iterator =
     ensure_gil (
       and_then (stl_input_iterator iterator) (\<lambda>b.
       ret \<lparr>begin_it = b\<rparr>))"

text \<open>
  \<^verbatim>\<open>python_featureset::next()\<close> returns what the call did and the featureset after it.
  \<^verbatim>\<open>*(begin_++)\<close> converts the current item first and advances the iterator second; the
  function has no handler, so a Python error leaves it as \<^verbatim>\<open>error_already_set\<close>.
\<close>

definition featureset_next ::
  "('d, 'f) python_featureset \<Rightarrow> ('d, 'f option) run \<times> ('d, 'f) python_featureset" where
  "featureset_next fs =
     (if iterator_equal (begin_it fs) end_it then (ret None, fs)
      else
        case iter_ob (begin_it fs) of
          None \<Rightarrow> (ret None, fs)
        | Some v \<Rightarrow>
            (case ensure_gil (
                    and_then (extract_feature_ptr v) (\<lambda>f.
                    and_then (increment (begin_it fs)) (\<lambda>b.
                    ret (f, b))))
             of
               (t, Inl e) \<Rightarrow> ((t, Inl e), fs)
             | (t, Inr (f, b)) \<Rightarrow> ((t, Inr f), fs\<lparr>begin_it := b\<rparr>)))"

text \<open>The caller's loop: \<open>n\<close> successive calls of \<^verbatim>\<open>next()\<close>, with what each call did.\<close>

fun next_calls ::
  "nat \<Rightarrow> ('d, 'f) python_featureset \<Rightarrow> ('d, 'f option) run list \<times> ('d, 'f) python_featureset" where
  "next_calls 0 fs = ([], fs)"
| "next_calls (Suc n) fs =
     (case featureset_next fs of
        (r, fs') \<Rightarrow> (case next_calls n fs' of (rs, fs'') \<Rightarrow> (r # rs, fs'')))"

subsection \<open>Feature queries\<close>

definition features ::
  "'d platform \<Rightarrow> ('d, 'f) pyobj \<Rightarrow> 'd query \<Rightarrow> ('d, ('d, 'f) python_featureset option) run" where
  "features pf datasource q =
     try_catch (
       and_then (envelope pf datasource) (\<lambda>box.
       if intersects pf box (bbox q)
       then
         ensure_gil (
           and_then (get_param datasource ''features'') (\<lambda>p.
           and_then (optional_value p) (\<lambda>callable.
           and_then (call callable [Arg_query q]) (\<lambda>features.
           if is_none features then ret None
           else and_then (python_featureset features) (\<lambda>fs. ret (Some fs))))))
       else ret None))"

definition features_at_point ::
  "('d, 'f) pyobj \<Rightarrow> 'd coord2d \<Rightarrow> 'd \<Rightarrow> ('d, ('d, 'f) python_featureset option) run" where
  "features_at_point datasource pt tol =
     try_catch (ensure_gil (
       and_then (get_param datasource ''features_at_point'') (\<lambda>p.
       and_then (optional_value p) (\<lambda>callable.
       and_then (call callable [Arg_point pt]) (\<lambda>features.
       if is_none features then ret None
       else and_then (python_featureset features) (\<lambda>fs. ret (Some fs)))))))"

subsection \<open>A platform for examples\<close>

text \<open>
  Doubles read as the real numbers they stand for, with the intersection test and the
  default box of the host's \<^verbatim>\<open>box2d\<close>, and with the conversion of a Python integer
  to a double: the integer is rounded to 53 significant bits, ties going to the even
  neighbour, and an integer whose magnitude reaches \<open>2 ^ 1024\<close>, before or after the
  rounding, is out of range.
\<close>

definition box_intersects :: "real box2d \<Rightarrow> real box2d \<Rightarrow> bool" where
  "box_intersects a b =
     (\<not> (minx b > maxx a \<or> maxx b < minx a \<or> miny b > maxy a \<or> maxy b < miny a))"

fun bit_length :: "nat \<Rightarrow> nat" where
  "bit_length n = (if n = 0 then 0 else Suc (bit_length (n div 2)))"

declare bit_length.simps [simp del]

definition round_to_double :: "int \<Rightarrow> int" where
  "round_to_double i =
     (let n = nat \<bar>i\<bar>; e = bit_length n - 53;
          q = n div 2 ^ e; r = n mod 2 ^ e;
          q' = (if 2 ^ e < 2 * r \<or> (2 ^ e = 2 * r \<and> odd q) then q + 1 else q)
      in sgn i * int (q' * 2 ^ e))"

definition int_as_real :: "int \<Rightarrow> real option" where
  "int_as_real i =
     (if 2 ^ 1024 \<le> \<bar>i\<bar> then None
      else let d = round_to_double i in
        if \<bar>d\<bar> < 2 ^ 1024 then Some (of_int d) else None)"

definition real_platform :: "real platform" where
  "real_platform =
     \<lparr>box2d_init = \<lparr>minx = 0, miny = 0, maxx = - 1, maxy = - 1\<rparr>,
      intersects = box_intersects,
      PyLong_AsDouble = int_as_real\<rparr>"

text \<open>
  A datasource object of class \<^verbatim>\<open>DS\<close>: its extent is the box from (-10, -5) to (10, 5),
  and both of its callables answer a list of three features.
\<close>

definition sample_envelope :: "(real, nat) pyobj" where
  "sample_envelope =
     PyObject ''Box''
       [(''minx'', Inr (PyFloat (- 10))), (''miny'', Inr (PyFloat (- 5))),
        (''maxx'', Inr (PyFloat 10)), (''maxy'', Inr (PyFloat 5))]"

fun sample_features :: "real cpp_arg list \<Rightarrow> pyerr + (real, nat) pyobj" where
  "sample_features args = Inr (PyIterable [PyFeature 1, PyFeature 2, PyFeature 3])"

definition sample_datasource :: "(real, nat) pyobj" where
  "sample_datasource =
     PyObject ''DS''
       [(''envelope'', Inr sample_envelope),
        (''features'', Inr (PyCallable sample_features)),
        (''features_at_point'', Inr (PyCallable sample_features))]"

text \<open>A callable that answers \<^verbatim>\<open>None\<close>.\<close>

fun no_features :: "real cpp_arg list \<Rightarrow> pyerr + (real, nat) pyobj" where
  "no_features args = Inr PyNone"

text \<open>A query for a box that lies outside that extent.\<close>

definition far_query :: "real query" where
  "far_query = \<lparr>bbox = \<lparr>minx = 20, miny = 20, maxx = 30, maxy = 30\<rparr>\<rparr>"

section \<open>Basic facts about computations\<close>

lemma and_then_Inl: "and_then (t, Inl e) f = (t, Inl e)"
  by (simp add: and_then_def)

lemma and_then_Inr: "and_then (t, Inr v) f = (t @ fst (f v), snd (f v))"
  by (simp add: and_then_def split: prod.splits)

lemma and_then_ret: "and_then (ret v) f = f v"
  by (simp add: and_then_def ret_def split: prod.splits)

lemma and_then_throw: "and_then (throw e) f = throw e"
  by (simp add: and_then_def throw_def)

lemmas run_simps =
  and_then_Inl and_then_Inr and_then_ret and_then_throw ret_def throw_def
  ensure_gil_def try_catch_def get_param_def has_param_def optional_value_def

lemmas exception_simps =
  extractException_def PyErr_NormalizeException_def format_exception_def
  attribute_error_def type_error_def overflow_error_def quoted_def

section \<open>Facts about lookups and about the envelope\<close>

lemma attr_trace: "fst (attr v key) = [GetAttr key]"
  by (cases v) simp_all

lemma attr_eq: "attr v key = ([GetAttr key], snd (attr v key))"
  using attr_trace [of v key] by (cases "attr v key") simp

lemma attr_error: "snd (attr v key) = Inl x \<Longrightarrow> \<exists>e. x = Error_already_set e"
  by (cases v) (auto split: option.splits sum.splits)

lemma get_param_value:
  "snd (attr ds key) = Inr v \<Longrightarrow>
   get_param ds key = ([GetAttr key], Inr (if is_none v then None else Some v))"
  by (subst get_param_def, subst attr_eq) (simp add: run_simps)

lemma get_param_error:
  "snd (attr ds key) = Inl x \<Longrightarrow> get_param ds key = ([GetAttr key], Inl x)"
  by (subst get_param_def, subst attr_eq) (simp add: run_simps)

lemma has_param_value:
  "snd (attr ds key) = Inr v \<Longrightarrow> has_param ds key = ([GetAttr key], Inr (\<not> is_none v))"
  by (simp add: has_param_def get_param_value and_then_Inr ret_def)

lemma has_param_error:
  "snd (attr ds key) = Inl x \<Longrightarrow> has_param ds key = ([GetAttr key], Inl x)"
  by (simp add: has_param_def get_param_error and_then_Inl)

lemma extract_double_trace: "fst (extract_double pf a) = []"
  by (cases a) (simp_all add: ret_def throw_def split: option.splits)

lemma extract_double_ret_check: "extract_double pf a = ret d \<Longrightarrow> extract_double_check a"
  by (cases a) (simp_all add: ret_def throw_def)

lemma envelope_field_bad:
  "snd (attr env name) = Inr a \<Longrightarrow> \<not> extract_double_check a \<Longrightarrow>
   envelope_field pf env name =
     ([GetAttr name], Inl (Datasource_exception (''Python: could not convert envelope.'' @ name)))"
  by (subst envelope_field_def, subst attr_eq) (simp add: run_simps)

lemma envelope_field_good:
  "snd (attr env name) = Inr a \<Longrightarrow> extract_double pf a = ret d \<Longrightarrow>
   envelope_field pf env name = ([GetAttr name], Inr d)"
  by (subst envelope_field_def, subst attr_eq) (simp add: run_simps extract_double_ret_check)

lemma envelope_present:
  assumes "snd (attr ds ''envelope'') = Inr env" and "\<not> is_none env"
  shows "envelope pf ds =
     try_catch (ensure_gil (and_then ([GetAttr ''envelope'', GetAttr ''envelope''], Inr ()) (\<lambda>_.
       and_then (envelope_field pf env ''minx'') (\<lambda>x0.
       and_then (envelope_field pf env ''miny'') (\<lambda>y0.
       and_then (envelope_field pf env ''maxx'') (\<lambda>x1.
       and_then (envelope_field pf env ''maxy'') (\<lambda>y1.
       ret ((box2d_init pf)\<lparr>minx := x0, miny := y0, maxx := x1, maxy := y1\<rparr>))))))))"
  using assms
  by (simp add: envelope_def has_param_value get_param_value and_then_Inr and_then_ret optional_value_def)

lemma envelope_of_converted_fields:
  assumes "snd (attr ds ''envelope'') = Inr env" and "\<not> is_none env"
    and "snd (attr env ''minx'') = Inr a0" and "extract_double pf a0 = ret x0"
    and "snd (attr env ''miny'') = Inr a1" and "extract_double pf a1 = ret y0"
    and "snd (attr env ''maxx'') = Inr a2" and "extract_double pf a2 = ret x1"
    and "snd (attr env ''maxy'') = Inr a3" and "extract_double pf a3 = ret y1"
  shows "envelope pf ds =
     ([Gil_ensure, GetAttr ''envelope'', GetAttr ''envelope'', GetAttr ''minx'',
       GetAttr ''miny'', GetAttr ''maxx'', GetAttr ''maxy'', Gil_release],
      Inr \<lparr>minx = x0, miny = y0, maxx = x1, maxy = y1\<rparr>)"
proof -
  have f: "envelope_field pf env ''minx'' = ([GetAttr ''minx''], Inr x0)"
    "envelope_field pf env ''miny'' = ([GetAttr ''miny''], Inr y0)"
    "envelope_field pf env ''maxx'' = ([GetAttr ''maxx''], Inr x1)"
    "envelope_field pf env ''maxy'' = ([GetAttr ''maxy''], Inr y1)"
    using assms by (simp_all add: envelope_field_good)
  show ?thesis
    by (simp add: envelope_present [OF assms(1,2)] f and_then_Inr ret_def ensure_gil_def try_catch_def)
qed

lemma envelope_field_trace: "fst (envelope_field pf env name) = [GetAttr name]"
proof (cases "snd (attr env name)")
  case (Inl x)
  then show ?thesis
    by (subst envelope_field_def, subst attr_eq) (simp add: run_simps)
next
  case (Inr a)
  then show ?thesis
    by (subst envelope_field_def, subst attr_eq)
      (simp add: run_simps extract_double_trace)
qed

lemma extract_double_error:
  "snd (extract_double pf a) = Inl x \<Longrightarrow> \<exists>e. x = Error_already_set e"
  by (cases a) (auto simp: ret_def throw_def split: option.splits)

lemma envelope_field_error:
  assumes "snd (envelope_field pf env name) = Inl x"
  shows "x = Datasource_exception (''Python: could not convert envelope.'' @ name)
       \<or> (\<exists>e. x = Error_already_set e)"
proof (cases "snd (attr env name)")
  case (Inl y)
  then have "envelope_field pf env name = ([GetAttr name], Inl y)"
    by (subst envelope_field_def, subst attr_eq) (simp add: run_simps)
  with assms Inl show ?thesis using attr_error by fastforce
next
  case (Inr a)
  then have "snd (envelope_field pf env name) =
      (if \<not> extract_double_check a
       then Inl (Datasource_exception (''Python: could not convert envelope.'' @ name))
       else snd (extract_double pf a))"
    by (subst envelope_field_def, subst attr_eq) (simp add: run_simps)
  with assms show ?thesis using extract_double_error by (auto split: if_splits)
qed

lemma and_then_error:
  "snd (and_then m f) = Inl x \<Longrightarrow> snd m = Inl x \<or> (\<exists>v. snd m = Inr v \<and> snd (f v) = Inl x)"
  by (auto simp: and_then_def split: prod.splits sum.splits)

lemma try_catch_gil_snd:
  "snd (try_catch (ensure_gil m)) =
     (case snd m of
        Inl (Error_already_set e) \<Rightarrow> Inl (Datasource_exception (extractException e))
      | r \<Rightarrow> r)"
  by (auto simp: try_catch_def ensure_gil_def split: prod.splits sum.splits cpp_exception.splits)

lemma try_catch_gil_value:
  "try_catch (ensure_gil m) = (t, Inr v) \<Longrightarrow> snd m = Inr v \<and> t = Gil_ensure # fst m @ [Gil_release]"
  by (auto simp: try_catch_def ensure_gil_def split: prod.splits sum.splits cpp_exception.splits)

lemma envelope_lookup_raises:
  "snd (attr ds ''envelope'') = Inl (Error_already_set e) \<Longrightarrow>
   envelope pf ds =
     ([Gil_ensure, GetAttr ''envelope'', Gil_release, Format_exception],
      Inl (Datasource_exception (extractException e)))"
  by (simp add: envelope_def has_param_error and_then_Inl ensure_gil_def try_catch_def)

lemma envelope_null:
  "snd (attr ds ''envelope'') = Inr v \<Longrightarrow> is_none v \<Longrightarrow>
   envelope pf ds =
     ([Gil_ensure, GetAttr ''envelope'', Gil_release],
      Inl (Datasource_exception ''Python: could not access envelope property''))"
  by (simp add: envelope_def has_param_value and_then_Inr throw_def ensure_gil_def try_catch_def)

lemma envelope_error:
  assumes "snd (envelope pf ds) = Inl x"
  shows "x = Datasource_exception ''Python: could not access envelope property''
       \<or> (\<exists>name \<in> set envelope_fields.
             x = Datasource_exception (''Python: could not convert envelope.'' @ name))
       \<or> (\<exists>e. x = Datasource_exception (extractException e))"
proof (cases "snd (attr ds ''envelope'')")
  case (Inl y)
  then obtain e where "y = Error_already_set e" using attr_error by blast
  with Inl assms show ?thesis by (auto simp: envelope_lookup_raises)
next
  case (Inr env)
  show ?thesis
  proof (cases "is_none env")
    case True
    with Inr assms show ?thesis by (simp add: envelope_null)
  next
    case False
    let ?chain = "and_then (envelope_field pf env ''minx'') (\<lambda>x0.
       and_then (envelope_field pf env ''miny'') (\<lambda>y0.
       and_then (envelope_field pf env ''maxx'') (\<lambda>x1.
       and_then (envelope_field pf env ''maxy'') (\<lambda>y1.
       ret ((box2d_init pf)\<lparr>minx := x0, miny := y0, maxx := x1, maxy := y1\<rparr>)))))"
    let ?m = "and_then ([GetAttr ''envelope'', GetAttr ''envelope''], Inr ()) (\<lambda>_. ?chain)"
    have sm: "snd ?m = snd ?chain" by (simp add: and_then_Inr)
    have env: "envelope pf ds = try_catch (ensure_gil ?m)"
      by (rule envelope_present [OF Inr False])
    have chain: "y = Datasource_exception (''Python: could not convert envelope.'' @ ''minx'')
        \<or> y = Datasource_exception (''Python: could not convert envelope.'' @ ''miny'')
        \<or> y = Datasource_exception (''Python: could not convert envelope.'' @ ''maxx'')
        \<or> y = Datasource_exception (''Python: could not convert envelope.'' @ ''maxy'')
        \<or> (\<exists>e. y = Error_already_set e)" if "snd ?chain = Inl y" for y
      using that
      by (auto dest!: and_then_error envelope_field_error simp: ret_def)
    from assms env have "(case snd ?chain of
        Inl (Error_already_set e) \<Rightarrow> Inl (Datasource_exception (extractException e))
      | r \<Rightarrow> r) = Inl x"
      by (simp add: try_catch_gil_snd sm)
    then show ?thesis
      using chain by (auto simp: envelope_fields_def split: sum.splits cpp_exception.splits)
  qed
qed

lemma extractException_newline: "CHR ''\<newline>'' \<in> set (extractException e)"
  by (cases e) (auto simp: exception_simps Let_def split: option.splits)

lemma envelope_success_trace:
  assumes "envelope pf ds = (t, Inr box)"
  shows "t = [Gil_ensure, GetAttr ''envelope'', GetAttr ''envelope'', GetAttr ''minx'',
       GetAttr ''miny'', GetAttr ''maxx'', GetAttr ''maxy'', Gil_release]"
proof (cases "snd (attr ds ''envelope'')")
  case (Inl y)
  then obtain e where "y = Error_already_set e" using attr_error by blast
  with Inl assms show ?thesis by (simp add: envelope_lookup_raises)
next
  case (Inr env)
  show ?thesis
  proof (cases "is_none env")
    case True
    with Inr assms show ?thesis by (simp add: envelope_null)
  next
    case False
    let ?chain = "and_then (envelope_field pf env ''minx'') (\<lambda>x0.
       and_then (envelope_field pf env ''miny'') (\<lambda>y0.
       and_then (envelope_field pf env ''maxx'') (\<lambda>x1.
       and_then (envelope_field pf env ''maxy'') (\<lambda>y1.
       ret ((box2d_init pf)\<lparr>minx := x0, miny := y0, maxx := x1, maxy := y1\<rparr>)))))"
    let ?m = "and_then ([GetAttr ''envelope'', GetAttr ''envelope''], Inr ()) (\<lambda>_. ?chain)"
    have env: "envelope pf ds = try_catch (ensure_gil ?m)"
      by (rule envelope_present [OF Inr False])
    with assms have m: "snd ?m = Inr box" "t = Gil_ensure # fst ?m @ [Gil_release]"
      using try_catch_gil_value [of ?m t box] by simp_all
    have step: "\<exists>v. snd n = Inr v \<and> snd (f v) = Inr w \<and> fst (and_then n f) = fst n @ fst (f v)"
      if "snd (and_then n f) = Inr w"
      for n :: "('a, 'a) run" and f :: "'a \<Rightarrow> ('a, 'a box2d) run" and w
      using that by (auto simp: and_then_def split: prod.splits sum.splits)
    from m(1) have c: "snd ?chain = Inr box" and fm: "fst ?m = [GetAttr ''envelope'', GetAttr ''envelope''] @ fst ?chain"
      by (simp_all add: and_then_Inr)
    from step [OF c] obtain x0 where s0: "snd (and_then (envelope_field pf env ''miny'') (\<lambda>y0.
       and_then (envelope_field pf env ''maxx'') (\<lambda>x1.
       and_then (envelope_field pf env ''maxy'') (\<lambda>y1.
       ret ((box2d_init pf)\<lparr>minx := x0, miny := y0, maxx := x1, maxy := y1\<rparr>))))) = Inr box"
      and t0: "fst ?chain = [GetAttr ''minx''] @ fst (and_then (envelope_field pf env ''miny'') (\<lambda>y0.
       and_then (envelope_field pf env ''maxx'') (\<lambda>x1.
       and_then (envelope_field pf env ''maxy'') (\<lambda>y1.
       ret ((box2d_init pf)\<lparr>minx := x0, miny := y0, maxx := x1, maxy := y1\<rparr>)))))"
      by (auto simp: envelope_field_trace)
    from step [OF s0] obtain y0 where s1: "snd (
       and_then (envelope_field pf env ''maxx'') (\<lambda>x1.
       and_then (envelope_field pf env ''maxy'') (\<lambda>y1.
       ret ((box2d_init pf)\<lparr>minx := x0, miny := y0, maxx := x1, maxy := y1\<rparr>)))) = Inr box"
      and t1: "fst (and_then (envelope_field pf env ''miny'') (\<lambda>y0.
       and_then (envelope_field pf env ''maxx'') (\<lambda>x1.
       and_then (envelope_field pf env ''maxy'') (\<lambda>y1.
       ret ((box2d_init pf)\<lparr>minx := x0, miny := y0, maxx := x1, maxy := y1\<rparr>))))) = [GetAttr ''miny''] @ fst (
       and_then (envelope_field pf env ''maxx'') (\<lambda>x1.
       and_then (envelope_field pf env ''maxy'') (\<lambda>y1.
       ret ((box2d_init pf)\<lparr>minx := x0, miny := y0, maxx := x1, maxy := y1\<rparr>))))"
      by (auto simp: envelope_field_trace)
    from step [OF s1] obtain x1 where s2: "snd (
       and_then (envelope_field pf env ''maxy'') (\<lambda>y1.
       ret ((box2d_init pf)\<lparr>minx := x0, miny := y0, maxx := x1, maxy := y1\<rparr>))) = Inr box"
      and t2: "fst (
       and_then (envelope_field pf env ''maxx'') (\<lambda>x1.
       and_then (envelope_field pf env ''maxy'') (\<lambda>y1.
       ret ((box2d_init pf)\<lparr>minx := x0, miny := y0, maxx := x1, maxy := y1\<rparr>)))) = [GetAttr ''maxx''] @ fst (
       and_then (envelope_field pf env ''maxy'') (\<lambda>y1.
       ret ((box2d_init pf)\<lparr>minx := x0, miny := y0, maxx := x1, maxy := y1\<rparr>)))"
      by (auto simp: envelope_field_trace)
    from step [OF s2] have t3: "fst (
       and_then (envelope_field pf env ''maxy'') (\<lambda>y1.
       ret ((box2d_init pf)\<lparr>minx := x0, miny := y0, maxx := x1, maxy := y1\<rparr>))) = [GetAttr ''maxy'']"
      by (auto simp: envelope_field_trace ret_def)
    have "fst ?m = [GetAttr ''envelope'', GetAttr ''envelope'', GetAttr ''minx'',
       GetAttr ''miny'', GetAttr ''maxx'', GetAttr ''maxy'']"
      by (simp only: fm t0 t1 t2 t3 append.simps)
    with m(2) show ?thesis by simp
  qed
qed

lemma envelope_error_kind:
  "snd (envelope pf ds) = Inl x \<Longrightarrow> \<exists>msg. x = Datasource_exception msg"
  using envelope_error by blast


section \<open>Facts about the geometry-type hint and the datasource type\<close>

text \<open>
  What \<^verbatim>\<open>get_geometry_type()\<close> and \<^verbatim>\<open>type()\<close> do when the attribute is there: \<^verbatim>\<open>None\<close>
  gives no hint, an integer that fits a \<^verbatim>\<open>long\<close> gives that integer, and a value that
  does not convert gives a datasource exception with the interpreter's text, which is
  never empty.
\<close>

lemma get_geometry_type_of_none:
  "snd (attr ds ''geometry_type'') = Inr PyNone \<Longrightarrow>
   get_geometry_type ds = ([Gil_ensure, GetAttr ''geometry_type'', Gil_release], Inr None)"
  by (simp add: get_geometry_type_def has_param_value and_then_Inr ret_def ensure_gil_def
      try_catch_def)

lemma get_geometry_type_of_int:
  "snd (attr ds ''geometry_type'') = Inr (PyInt i) \<Longrightarrow> - (2 ^ 63) \<le> i \<Longrightarrow> i < 2 ^ 63 \<Longrightarrow>
   get_geometry_type ds =
     ([Gil_ensure, GetAttr ''geometry_type'', GetAttr ''geometry_type'', Gil_release],
      Inr (Some (word_of_int i)))"
  by (simp add: get_geometry_type_def has_param_value get_param_value and_then_Inr ret_def
      optional_value_def ensure_gil_def try_catch_def)

lemma extract_long_error:
  "snd (extract_long v) = Inl x \<Longrightarrow> \<exists>e. x = Error_already_set e"
  by (cases v) (auto simp: ret_def throw_def split: if_splits)

lemma get_geometry_type_conversion_failure:
  assumes "snd (attr ds ''geometry_type'') = Inr v" and "\<not> is_none v"
    and "snd (extract_long v) = Inl x"
  shows "\<exists>e. get_geometry_type ds =
     ([Gil_ensure, GetAttr ''geometry_type'', GetAttr ''geometry_type'', Gil_release,
       Format_exception],
      Inl (Datasource_exception (extractException e)))"
proof -
  from assms(3) obtain e where "x = Error_already_set e"
    using extract_long_error by blast
  with assms(3) have "extract_long v = ([], Inl (Error_already_set e))"
    by (cases v) (auto simp: ret_def throw_def split: if_splits)
  with assms(1,2) have "get_geometry_type ds =
     ([Gil_ensure, GetAttr ''geometry_type'', GetAttr ''geometry_type'', Gil_release,
       Format_exception],
      Inl (Datasource_exception (extractException e)))"
    by (simp add: get_geometry_type_def has_param_value get_param_value and_then_Inr
        and_then_Inl ret_def optional_value_def ensure_gil_def try_catch_def)
  then show ?thesis ..
qed

lemma extractException_not_empty: "extractException e \<noteq> []"
  using extractException_newline [of e] by auto

lemma datasource_type_of_absent:
  "map_of slots ''data_type'' = None \<Longrightarrow>
   datasource_type (PyObject cls slots) =
     ([Gil_ensure, GetAttr ''data_type'', Gil_release, Format_exception],
      Inl (Datasource_exception
             (''AttributeError: '' @ quoted cls @ '' object has no attribute ''
              @ quoted ''data_type'' @ ''\<newline>'')))"
  by (simp add: datasource_type_def run_simps exception_simps split: list.splits)

lemma datasource_type_of_int:
  "snd (attr ds ''data_type'') = Inr (PyInt i) \<Longrightarrow> - (2 ^ 63) \<le> i \<Longrightarrow> i < 2 ^ 63 \<Longrightarrow>
   datasource_type ds = ([Gil_ensure, GetAttr ''data_type'', Gil_release], Inr (word_of_int i))"
  by (simp add: datasource_type_def get_param_value and_then_Inr ret_def
      optional_value_def ensure_gil_def try_catch_def)

section \<open>Facts about the featureset\<close>

lemma python_featureset_iterable:
  "python_featureset (PyIterable items) =
     ([Gil_ensure, GetAttr ''__iter__'', Call [], Iter_next, Gil_release],
      Inr \<lparr>begin_it = PyIter_Next items\<rparr>)"
  by (simp add: python_featureset_def stl_input_iterator_def increment_def run_simps)

lemma featureset_next_at_end:
  "featureset_next \<lparr>begin_it = end_it\<rparr> = (([], Inr None), \<lparr>begin_it = end_it\<rparr>)"
  by (simp add: featureset_next_def iterator_equal_def end_it_def ret_def)

lemma featureset_next_feature:
  "featureset_next \<lparr>begin_it = PyIter_Next (PyFeature f # items)\<rparr> =
     (([Gil_ensure, Iter_next, Gil_release], Inr (Some f)), \<lparr>begin_it = PyIter_Next items\<rparr>)"
  by (simp add: featureset_next_def iterator_equal_def end_it_def PyIter_Next_def increment_def
      run_simps)

lemma next_calls_at_end:
  "next_calls m \<lparr>begin_it = end_it\<rparr> = (replicate m ([], Inr None), \<lparr>begin_it = end_it\<rparr>)"
  by (induction m) (simp_all add: featureset_next_at_end)

lemma PyIter_Next_Nil: "PyIter_Next [] = end_it"
  by (simp add: PyIter_Next_def end_it_def)

lemma next_calls_features:
  "next_calls (length fl + m) \<lparr>begin_it = PyIter_Next (map PyFeature fl)\<rparr> =
     (map (\<lambda>f. ([Gil_ensure, Iter_next, Gil_release], Inr (Some f))) fl
        @ replicate m ([], Inr None),
      \<lparr>begin_it = end_it\<rparr>)"
  by (induction fl) (simp_all add: PyIter_Next_Nil next_calls_at_end featureset_next_feature)

lemma bit_length_numeral [simp]:
  "bit_length (numeral k) = Suc (bit_length (numeral k div 2))"
  "bit_length 0 = 0"
  "bit_length (Suc 0) = Suc 0"
  by (simp_all add: bit_length.simps [of "numeral k"] bit_length.simps [of 0]
      bit_length.simps [of "Suc 0"])

lemmas sample_simps =
  sample_datasource_def sample_envelope_def real_platform_def box_intersects_def
  int_as_real_def round_to_double_def Let_def far_query_def

section \<open>The geometry-type hint\<close>

text \<open>
  Claim C1. \<^verbatim>\<open>get_geometry_type()\<close> is specified to answer "no hint" when the datasource
  object has no \<^verbatim>\<open>geometry_type\<close> attribute, and the comment in the function says the
  same. The code does not: \<^verbatim>\<open>has_param\<close> looks the attribute up, the lookup raises
  \<^verbatim>\<open>AttributeError\<close>, and the handler turns it into a datasource exception. The theorem
  evaluates the function on an object of class \<^verbatim>\<open>DS\<close> without attributes. The other
  cases of the claim hold (\<open>get_geometry_type_of_none\<close>, \<open>get_geometry_type_of_int\<close>,
  \<open>get_geometry_type_conversion_failure\<close>).
\<close>

theorem get_geometry_type_absent_attribute:
  "get_geometry_type (PyObject ''DS'' []) =
     ([Gil_ensure, GetAttr ''geometry_type'', Gil_release, Format_exception],
      Inl (Datasource_exception
             (''AttributeError: '' @ quoted ''DS'' @ '' object has no attribute ''
              @ quoted ''geometry_type'' @ ''\<newline>'')))"
  by (simp add: get_geometry_type_def run_simps exception_simps)

section \<open>The datasource type\<close>

text \<open>
  Claim C3. \<^verbatim>\<open>type()\<close> is specified to fail with a datasource exception on every
  failure. When the attribute \<^verbatim>\<open>data_type\<close> is present and is \<^verbatim>\<open>None\<close>, the code fails
  with \<^verbatim>\<open>boost::bad_optional_access\<close> instead: \<^verbatim>\<open>get_param\<close> answers the empty optional,
  \<^verbatim>\<open>value()\<close> throws on it, and the handler catches \<^verbatim>\<open>error_already_set\<close> only. The
  theorem evaluates the function on such an object. An absent attribute and an integer
  behave as specified (\<open>datasource_type_of_absent\<close>, \<open>datasource_type_of_int\<close>).
\<close>

theorem datasource_type_of_none:
  "datasource_type (PyObject ''DS'' [(''data_type'', Inr PyNone)]) =
     ([Gil_ensure, GetAttr ''data_type'', Gil_release], Inl Bad_optional_access)"
  by (simp add: datasource_type_def run_simps)

section \<open>The envelope\<close>

text \<open>
  Claim C5, as the specification states it: when the four fields of the envelope are
  numeric, \<^verbatim>\<open>envelope()\<close> answers the box of the four source values. A Python integer is
  numeric, and \<^verbatim>\<open>ex.check()\<close> accepts it, but the conversion of \<^verbatim>\<open>ex()\<close> can fail or
  round. With a minx of \<open>10 ^ 400\<close> the conversion raises \<^verbatim>\<open>OverflowError\<close> and
  \<^verbatim>\<open>envelope()\<close> throws a datasource exception instead of answering a box; with a minx of
  \<open>2 ^ 53 + 1\<close> the bound of the box is \<open>2 ^ 53\<close>, not the source value.
\<close>

theorem envelope_int_field_beyond_double:
  "extract_double_check (PyInt (10 ^ 400) :: (real, nat) pyobj)
   \<and> envelope real_platform
       (PyObject ''DS'' [(''envelope'', Inr (PyObject ''Box''
          [(''minx'', Inr (PyInt (10 ^ 400))), (''miny'', Inr (PyFloat (- 5))),
           (''maxx'', Inr (PyFloat 10)), (''maxy'', Inr (PyFloat 5))]))] :: (real, nat) pyobj) =
     ([Gil_ensure, GetAttr ''envelope'', GetAttr ''envelope'', GetAttr ''minx'', Gil_release,
       Format_exception],
      Inl (Datasource_exception ''OverflowError: int too large to convert to float\<newline>''))
   \<and> snd (envelope real_platform
       (PyObject ''DS'' [(''envelope'', Inr (PyObject ''Box''
          [(''minx'', Inr (PyInt (2 ^ 53 + 1))), (''miny'', Inr (PyFloat (- 5))),
           (''maxx'', Inr (PyFloat 10)), (''maxy'', Inr (PyFloat 5))]))] :: (real, nat) pyobj)) =
     Inr \<lparr>minx = 2 ^ 53, miny = - 5, maxx = 10, maxy = 5\<rparr>
   \<and> (2 ^ 53 :: real) \<noteq> of_int (2 ^ 53 + 1)"
  by (simp add: envelope_def envelope_field_def run_simps exception_simps sample_simps)

text \<open>
  Claim C5, amended. When each of the four fields of the envelope is a Python float, or
  a Python integer that the interpreter converts to a double, \<^verbatim>\<open>envelope()\<close> answers the
  box of the four values, a float as it is and an integer as converted, in the order
  minx, miny, maxx, maxy. The bounds are not ordered or otherwise normalised.
\<close>

theorem envelope_copies_bounds:
  assumes "snd (attr ds ''envelope'') = Inr env" and "\<not> is_none env"
    and "snd (attr env ''minx'') = Inr (PyFloat x0)
       \<or> (\<exists>i. snd (attr env ''minx'') = Inr (PyInt i) \<and> PyLong_AsDouble pf i = Some x0)"
    and "snd (attr env ''miny'') = Inr (PyFloat y0)
       \<or> (\<exists>i. snd (attr env ''miny'') = Inr (PyInt i) \<and> PyLong_AsDouble pf i = Some y0)"
    and "snd (attr env ''maxx'') = Inr (PyFloat x1)
       \<or> (\<exists>i. snd (attr env ''maxx'') = Inr (PyInt i) \<and> PyLong_AsDouble pf i = Some x1)"
    and "snd (attr env ''maxy'') = Inr (PyFloat y1)
       \<or> (\<exists>i. snd (attr env ''maxy'') = Inr (PyInt i) \<and> PyLong_AsDouble pf i = Some y1)"
  shows "envelope pf ds =
     ([Gil_ensure, GetAttr ''envelope'', GetAttr ''envelope'', GetAttr ''minx'',
       GetAttr ''miny'', GetAttr ''maxx'', GetAttr ''maxy'', Gil_release],
      Inr \<lparr>minx = x0, miny = y0, maxx = x1, maxy = y1\<rparr>)"
proof -
  have conv: "\<exists>a. snd (attr env name) = Inr a \<and> extract_double pf a = ret x"
    if "snd (attr env name) = Inr (PyFloat x)
       \<or> (\<exists>i. snd (attr env name) = Inr (PyInt i) \<and> PyLong_AsDouble pf i = Some x)"
    for name x
    using that by (auto simp: ret_def)
  from conv [OF assms(3)] obtain a0 where
    a0: "snd (attr env ''minx'') = Inr a0" "extract_double pf a0 = ret x0" by blast
  from conv [OF assms(4)] obtain a1 where
    a1: "snd (attr env ''miny'') = Inr a1" "extract_double pf a1 = ret y0" by blast
  from conv [OF assms(5)] obtain a2 where
    a2: "snd (attr env ''maxx'') = Inr a2" "extract_double pf a2 = ret x1" by blast
  from conv [OF assms(6)] obtain a3 where
    a3: "snd (attr env ''maxy'') = Inr a3" "extract_double pf a3 = ret y1" by blast
  show ?thesis
    by (rule envelope_of_converted_fields [OF assms(1,2) a0 a1 a2 a3])
qed

text \<open>
  The extent of the sample datasource is copied as it is; so is a box whose minimum
  bounds exceed its maximum bounds and one of whose fields is an integer.
\<close>

theorem envelope_copies_bounds_witness:
  "envelope real_platform sample_datasource =
     ([Gil_ensure, GetAttr ''envelope'', GetAttr ''envelope'', GetAttr ''minx'',
       GetAttr ''miny'', GetAttr ''maxx'', GetAttr ''maxy'', Gil_release],
      Inr \<lparr>minx = - 10, miny = - 5, maxx = 10, maxy = 5\<rparr>)
   \<and> snd (envelope real_platform
        (PyObject ''DS'' [(''envelope'', Inr (PyObject ''Box''
           [(''minx'', Inr (PyFloat 7)), (''miny'', Inr (PyInt 3)),
            (''maxx'', Inr (PyFloat 2)), (''maxy'', Inr (PyFloat (- 4)))]))] :: (real, nat) pyobj)) =
      Inr \<lparr>minx = 7, miny = 3, maxx = 2, maxy = - 4\<rparr>"
  using envelope_copies_bounds [where ds = sample_datasource and env = sample_envelope
      and pf = real_platform and ?x0.0 = "- 10" and ?y0.0 = "- 5" and ?x1.0 = 10 and ?y1.0 = 5]
    envelope_copies_bounds [where
      ds = "PyObject ''DS'' [(''envelope'', Inr (PyObject ''Box''
           [(''minx'', Inr (PyFloat 7)), (''miny'', Inr (PyInt 3)),
            (''maxx'', Inr (PyFloat 2)), (''maxy'', Inr (PyFloat (- 4)))]))] :: (real, nat) pyobj"
      and env = "PyObject ''Box''
           [(''minx'', Inr (PyFloat 7)), (''miny'', Inr (PyInt 3)),
            (''maxx'', Inr (PyFloat 2)), (''maxy'', Inr (PyFloat (- 4)))]"
      and pf = real_platform and ?x0.0 = 7 and ?y0.0 = 3 and ?x1.0 = 2 and ?y1.0 = "- 4"]
  by (simp add: sample_simps)

text \<open>
  Claim C4. \<^verbatim>\<open>envelope()\<close> reads the fields in the order minx, miny, maxx, maxy and
  stops at the first one that does not convert: when the fields before the \<open>k\<close>-th
  convert and the \<open>k\<close>-th is present but fails \<^verbatim>\<open>ex.check()\<close>, the function throws the
  datasource exception that names this field, and the lookups it has made are those of
  the fields up to the \<open>k\<close>-th and of no later field.
\<close>

theorem envelope_fail_fast:
  assumes env: "snd (attr ds ''envelope'') = Inr env" "\<not> is_none env"
    and k: "k < 4"
    and good: "\<forall>j<k. \<exists>a d. snd (attr env (envelope_fields ! j)) = Inr a \<and> extract_double pf a = ret d"
    and bad: "snd (attr env (envelope_fields ! k)) = Inr a" "\<not> extract_double_check a"
  shows "envelope pf ds =
     ([Gil_ensure, GetAttr ''envelope'', GetAttr ''envelope'']
        @ map GetAttr (take (Suc k) envelope_fields) @ [Gil_release],
      Inl (Datasource_exception (''Python: could not convert envelope.'' @ envelope_fields ! k)))"
proof -
  have fg: "\<exists>d. envelope_field pf env (envelope_fields ! j) = ([GetAttr (envelope_fields ! j)], Inr d)"
    if "j < k" for j
  proof -
    from good that obtain a d where
      "snd (attr env (envelope_fields ! j)) = Inr a" "extract_double pf a = ret d"
      by blast
    then have "envelope_field pf env (envelope_fields ! j) = ([GetAttr (envelope_fields ! j)], Inr d)"
      by (rule envelope_field_good)
    then show ?thesis ..
  qed
  have fb: "envelope_field pf env (envelope_fields ! k) =
      ([GetAttr (envelope_fields ! k)],
       Inl (Datasource_exception (''Python: could not convert envelope.'' @ envelope_fields ! k)))"
    using bad by (rule envelope_field_bad)
  from k consider "k = 0" | "k = 1" | "k = 2" | "k = 3" by linarith
  then show ?thesis
  proof cases
    case 1
    with fb show ?thesis
      by (simp add: envelope_present [OF env] envelope_fields_def and_then_Inr and_then_Inl
          ensure_gil_def try_catch_def)
  next
    case 2
    with fg [of 0] obtain d0 where "envelope_field pf env ''minx'' = ([GetAttr ''minx''], Inr d0)"
      by (auto simp: envelope_fields_def)
    with 2 fb show ?thesis
      by (simp add: envelope_present [OF env] envelope_fields_def and_then_Inr and_then_Inl
          ensure_gil_def try_catch_def)
  next
    case 3
    with fg [of 0] fg [of 1] obtain d0 d1 where
      "envelope_field pf env ''minx'' = ([GetAttr ''minx''], Inr d0)"
      "envelope_field pf env ''miny'' = ([GetAttr ''miny''], Inr d1)"
      by (auto simp: envelope_fields_def)
    with 3 fb show ?thesis
      by (simp add: envelope_present [OF env] envelope_fields_def and_then_Inr and_then_Inl
          ensure_gil_def try_catch_def)
  next
    case 4
    with fg [of 0] fg [of 1] fg [of 2] obtain d0 d1 d2 where
      "envelope_field pf env ''minx'' = ([GetAttr ''minx''], Inr d0)"
      "envelope_field pf env ''miny'' = ([GetAttr ''miny''], Inr d1)"
      "envelope_field pf env ''maxx'' = ([GetAttr ''maxx''], Inr d2)"
      by (auto simp: envelope_fields_def)
    with 4 fb show ?thesis
      by (simp add: envelope_present [OF env] envelope_fields_def and_then_Inr and_then_Inl
          ensure_gil_def try_catch_def)
  qed
qed

text \<open>A minx that is a string; and a maxx that is \<^verbatim>\<open>None\<close> after two good fields.\<close>

theorem envelope_fail_fast_witness:
  "envelope real_platform
     (PyObject ''DS'' [(''envelope'', Inr (PyObject ''Box''
        [(''minx'', Inr (PyStr ''west'')), (''miny'', Inr (PyFloat 0)),
         (''maxx'', Inr (PyFloat 1)), (''maxy'', Inr (PyFloat 1))]))] :: (real, nat) pyobj) =
     ([Gil_ensure, GetAttr ''envelope'', GetAttr ''envelope'', GetAttr ''minx'', Gil_release],
      Inl (Datasource_exception ''Python: could not convert envelope.minx''))
   \<and> envelope real_platform
     (PyObject ''DS'' [(''envelope'', Inr (PyObject ''Box''
        [(''minx'', Inr (PyFloat 0)), (''miny'', Inr (PyFloat 0)),
         (''maxx'', Inr PyNone), (''maxy'', Inr (PyStr ''north''))]))] :: (real, nat) pyobj) =
     ([Gil_ensure, GetAttr ''envelope'', GetAttr ''envelope'', GetAttr ''minx'',
       GetAttr ''miny'', GetAttr ''maxx'', Gil_release],
      Inl (Datasource_exception ''Python: could not convert envelope.maxx''))"
  using envelope_fail_fast [of
      "PyObject ''DS'' [(''envelope'', Inr (PyObject ''Box''
        [(''minx'', Inr (PyStr ''west'')), (''miny'', Inr (PyFloat 0)),
         (''maxx'', Inr (PyFloat 1)), (''maxy'', Inr (PyFloat 1))]))] :: (real, nat) pyobj"
      "PyObject ''Box''
        [(''minx'', Inr (PyStr ''west'')), (''miny'', Inr (PyFloat 0)),
         (''maxx'', Inr (PyFloat 1)), (''maxy'', Inr (PyFloat 1))]"
      0 real_platform "PyStr ''west''"]
    envelope_fail_fast [of
      "PyObject ''DS'' [(''envelope'', Inr (PyObject ''Box''
        [(''minx'', Inr (PyFloat 0)), (''miny'', Inr (PyFloat 0)),
         (''maxx'', Inr PyNone), (''maxy'', Inr (PyStr ''north''))]))] :: (real, nat) pyobj"
      "PyObject ''Box''
        [(''minx'', Inr (PyFloat 0)), (''miny'', Inr (PyFloat 0)),
         (''maxx'', Inr PyNone), (''maxy'', Inr (PyStr ''north''))]"
      2 real_platform PyNone]
  by (simp add: envelope_fields_def ret_def less_Suc_eq numeral_2_eq_2)





section \<open>Feature queries\<close>

text \<open>
  Claim C2, as the specification states it: for a query whose box does not intersect
  the envelope, \<^verbatim>\<open>features(query)\<close> does no interpreter work. The code does some: the
  envelope it tests is computed by \<^verbatim>\<open>envelope()\<close>, which takes the lock and looks up six
  attributes. For the sample datasource and a query outside its extent the result is
  the empty featureset and the list of interpreter events is not empty.
\<close>

theorem features_short_circuit_reads_envelope:
  "\<not> intersects real_platform \<lparr>minx = - 10, miny = - 5, maxx = 10, maxy = 5\<rparr> (bbox far_query)
   \<and> snd (envelope real_platform sample_datasource) =
       Inr \<lparr>minx = - 10, miny = - 5, maxx = 10, maxy = 5\<rparr>
   \<and> snd (features real_platform sample_datasource far_query) = Inr None
   \<and> fst (features real_platform sample_datasource far_query) \<noteq> []
   \<and> Gil_ensure \<in> set (fst (features real_platform sample_datasource far_query))
   \<and> GetAttr ''envelope'' \<in> set (fst (features real_platform sample_datasource far_query))
   \<and> GetAttr ''maxy'' \<in> set (fst (features real_platform sample_datasource far_query))"
  by (simp add: features_def envelope_def envelope_field_def run_simps sample_simps)

text \<open>
  Claim C2, amended. When \<^verbatim>\<open>envelope()\<close> answers a box that does not intersect the box
  of the query, \<^verbatim>\<open>features(query)\<close> answers the empty featureset, and its interpreter
  events are exactly those of \<^verbatim>\<open>envelope()\<close>: the attribute \<^verbatim>\<open>features\<close> is not looked
  up and nothing is called.
\<close>

theorem features_short_circuit:
  assumes "snd (envelope pf ds) = Inr box" and "\<not> intersects pf box (bbox q)"
  shows "features pf ds q =
     ([Gil_ensure, GetAttr ''envelope'', GetAttr ''envelope'', GetAttr ''minx'',
       GetAttr ''miny'', GetAttr ''maxx'', GetAttr ''maxy'', Gil_release],
      Inr None)"
proof -
  obtain t where e: "envelope pf ds = (t, Inr box)"
    using assms(1) by (metis prod.collapse)
  then have "features pf ds q = (t, Inr None)"
    using assms(2) by (simp add: features_def and_then_Inr ret_def try_catch_def)
  with envelope_success_trace [OF e] show ?thesis by simp
qed

theorem features_short_circuit_witness:
  "snd (envelope real_platform sample_datasource) =
     Inr \<lparr>minx = - 10, miny = - 5, maxx = 10, maxy = 5\<rparr>
   \<and> \<not> intersects real_platform \<lparr>minx = - 10, miny = - 5, maxx = 10, maxy = 5\<rparr> (bbox far_query)
   \<and> features real_platform sample_datasource far_query =
     ([Gil_ensure, GetAttr ''envelope'', GetAttr ''envelope'', GetAttr ''minx'',
       GetAttr ''miny'', GetAttr ''maxx'', GetAttr ''maxy'', Gil_release],
      Inr None)"
proof -
  have e: "snd (envelope real_platform sample_datasource) =
     Inr \<lparr>minx = - 10, miny = - 5, maxx = 10, maxy = 5\<rparr>"
    by (simp add: envelope_def envelope_field_def run_simps sample_simps)
  have i: "\<not> intersects real_platform \<lparr>minx = - 10, miny = - 5, maxx = 10, maxy = 5\<rparr> (bbox far_query)"
    by (simp add: sample_simps)
  show ?thesis using e i features_short_circuit [OF e i] by simp
qed

text \<open>
  Claim C10. \<^verbatim>\<open>features(query)\<close> starts with \<^verbatim>\<open>envelope()\<close>, whatever the query: its
  events begin with those of \<^verbatim>\<open>envelope()\<close>. When \<^verbatim>\<open>envelope()\<close> fails, the exception
  is a datasource exception and \<^verbatim>\<open>features(query)\<close> fails with the same exception,
  after the same events, for every query.
\<close>

theorem features_fails_as_envelope:
  "(\<exists>t. fst (features pf ds q) = fst (envelope pf ds) @ t)
   \<and> (snd (envelope pf ds) = Inl e \<longrightarrow>
        features pf ds q = (fst (envelope pf ds), Inl e) \<and> (\<exists>msg. e = Datasource_exception msg))"
proof (intro conjI impI)
  show "\<exists>t. fst (features pf ds q) = fst (envelope pf ds) @ t"
    by (cases "envelope pf ds")
      (auto simp: features_def and_then_def try_catch_def
        split: prod.splits sum.splits cpp_exception.splits)
next
  assume f: "snd (envelope pf ds) = Inl e"
  then show "\<exists>msg. e = Datasource_exception msg" by (rule envelope_error_kind)
  then obtain msg where "e = Datasource_exception msg" ..
  with f obtain t where t: "envelope pf ds = (t, Inl (Datasource_exception msg))"
    by (metis prod.collapse)
  show "features pf ds q = (fst (envelope pf ds), Inl e)"
    using \<open>e = Datasource_exception msg\<close>
    by (simp add: features_def t and_then_Inl try_catch_def)
qed

theorem features_fails_as_envelope_witness:
  "features real_platform (PyObject ''DS'' [(''envelope'', Inr PyNone)] :: (real, nat) pyobj) far_query =
     ([Gil_ensure, GetAttr ''envelope'', Gil_release],
      Inl (Datasource_exception ''Python: could not access envelope property''))"
proof -
  have e: "envelope real_platform (PyObject ''DS'' [(''envelope'', Inr PyNone)] :: (real, nat) pyobj) =
      ([Gil_ensure, GetAttr ''envelope'', Gil_release],
       Inl (Datasource_exception ''Python: could not access envelope property''))"
    by (simp add: envelope_def run_simps)
  from features_fails_as_envelope [of real_platform
      "PyObject ''DS'' [(''envelope'', Inr PyNone)] :: (real, nat) pyobj" far_query "Datasource_exception ''Python: could not access envelope property''"]
  show ?thesis unfolding e by simp
qed

text \<open>
  Claim C7. \<^verbatim>\<open>features_at_point(pt, tol)\<close> calls the callable \<^verbatim>\<open>features_at_point\<close> with
  the point as its only argument; the tolerance does not reach the call, and the
  result does not depend on it. When the callable answers \<^verbatim>\<open>None\<close> the result is the empty
  featureset pointer; any other answer is handed to the constructor of
  \<^verbatim>\<open>python_featureset\<close>, and the result is the featureset it builds (an iterable always
  gives one) or, when the constructor raises, the datasource exception of the handler.
\<close>

theorem features_at_point_forwards_point_only:
  assumes "snd (attr ds ''features_at_point'') = Inr (PyCallable g)"
  shows "features_at_point ds pt tol = features_at_point ds pt tol'
   \<and> (\<exists>t. fst (features_at_point ds pt tol) =
         [Gil_ensure, GetAttr ''features_at_point'', Call [Arg_point pt]] @ t)
   \<and> (g [Arg_point pt] = Inr PyNone \<longrightarrow>
        features_at_point ds pt tol =
          ([Gil_ensure, GetAttr ''features_at_point'', Call [Arg_point pt], Gil_release], Inr None))
   \<and> (g [Arg_point pt] = Inr r \<and> \<not> is_none r \<longrightarrow>
        snd (features_at_point ds pt tol) =
          (case snd (python_featureset r) of
             Inr fs \<Rightarrow> Inr (Some fs)
           | Inl (Error_already_set e) \<Rightarrow> Inl (Datasource_exception (extractException e))
           | Inl x \<Rightarrow> Inl x))
   \<and> (g [Arg_point pt] = Inr (PyIterable items) \<longrightarrow>
        features_at_point ds pt tol =
          ([Gil_ensure, GetAttr ''features_at_point'', Call [Arg_point pt],
            Gil_ensure, GetAttr ''__iter__'', Call [], Iter_next, Gil_release, Gil_release],
           Inr (Some \<lparr>begin_it = PyIter_Next items\<rparr>)))"
proof -
  have gp: "get_param ds ''features_at_point'' =
      ([GetAttr ''features_at_point''], Inr (Some (PyCallable g)))"
    using get_param_value [OF assms] by simp
  have unfold: "features_at_point ds pt tol =
      try_catch (ensure_gil (and_then ([GetAttr ''features_at_point'', Call [Arg_point pt]],
          case g [Arg_point pt] of Inl e \<Rightarrow> Inl (Error_already_set e) | Inr v \<Rightarrow> Inr v)
        (\<lambda>features. if is_none features then ret None
           else and_then (python_featureset features) (\<lambda>fs. ret (Some fs)))))" for tol
    by (simp add: features_at_point_def gp optional_value_def ret_def and_then_def
        split: prod.splits sum.splits)
  show ?thesis
  proof (intro conjI impI)
    show "features_at_point ds pt tol = features_at_point ds pt tol'"
      by (simp add: features_at_point_def)
    show "\<exists>t. fst (features_at_point ds pt tol) =
         [Gil_ensure, GetAttr ''features_at_point'', Call [Arg_point pt]] @ t"
      unfolding unfold
      by (auto simp: try_catch_def ensure_gil_def and_then_def
          split: prod.splits sum.splits cpp_exception.splits)
  next
    assume "g [Arg_point pt] = Inr PyNone"
    then show "features_at_point ds pt tol =
          ([Gil_ensure, GetAttr ''features_at_point'', Call [Arg_point pt], Gil_release], Inr None)"
      unfolding unfold by (simp add: run_simps)
  next
    assume "g [Arg_point pt] = Inr r \<and> \<not> is_none r"
    then show "snd (features_at_point ds pt tol) =
          (case snd (python_featureset r) of
             Inr fs \<Rightarrow> Inr (Some fs)
           | Inl (Error_already_set e) \<Rightarrow> Inl (Datasource_exception (extractException e))
           | Inl x \<Rightarrow> Inl x)"
      unfolding unfold
      by (cases "python_featureset r")
        (auto simp: try_catch_def ensure_gil_def and_then_def ret_def
          split: prod.splits sum.splits cpp_exception.splits)
  next
    assume "g [Arg_point pt] = Inr (PyIterable items)"
    then show "features_at_point ds pt tol =
          ([Gil_ensure, GetAttr ''features_at_point'', Call [Arg_point pt],
            Gil_ensure, GetAttr ''__iter__'', Call [], Iter_next, Gil_release, Gil_release],
           Inr (Some \<lparr>begin_it = PyIter_Next items\<rparr>))"
      unfolding unfold by (simp add: python_featureset_iterable run_simps)
  qed
qed

theorem features_at_point_forwards_point_only_witness:
  "features_at_point sample_datasource \<lparr>coord_x = 0, coord_y = 0\<rparr> 1 =
     ([Gil_ensure, GetAttr ''features_at_point'', Call [Arg_point \<lparr>coord_x = 0, coord_y = 0\<rparr>],
       Gil_ensure, GetAttr ''__iter__'', Call [], Iter_next, Gil_release, Gil_release],
      Inr (Some \<lparr>begin_it =
        \<lparr>iter_it = [PyFeature 2, PyFeature 3], iter_ob = Some (PyFeature 1)\<rparr>\<rparr>))
   \<and> features_at_point
       (PyObject ''DS'' [(''features_at_point'', Inr (PyCallable no_features))])
       \<lparr>coord_x = 0, coord_y = 0\<rparr> 1 =
     ([Gil_ensure, GetAttr ''features_at_point'', Call [Arg_point \<lparr>coord_x = 0, coord_y = 0\<rparr>],
       Gil_release],
      Inr None)"
  using features_at_point_forwards_point_only [where ds = sample_datasource
      and g = sample_features and pt = "\<lparr>coord_x = 0, coord_y = 0\<rparr>" and tol = 1
      and r = "PyIterable [PyFeature 1, PyFeature 2, PyFeature 3]"
      and items = "[PyFeature 1, PyFeature 2, PyFeature 3]"]
    features_at_point_forwards_point_only [where
      ds = "PyObject ''DS'' [(''features_at_point'', Inr (PyCallable no_features))]"
      and g = no_features and pt = "\<lparr>coord_x = 0, coord_y = 0\<rparr>" and tol = 1]
  by (simp add: sample_simps PyIter_Next_def)

section \<open>The featureset\<close>

text \<open>
  Claim C8. A featureset built on an iterable of \<open>N\<close> features answers these \<open>N\<close>
  features, in order, to the first \<open>N\<close> calls of \<^verbatim>\<open>next()\<close>, each call taking the lock
  and advancing the Python iterator once. Every later call answers the null feature
  with no interpreter event at all, not even the lock, and leaves the featureset at
  its end.
\<close>

theorem featureset_yields_then_ends:
  "python_featureset (PyIterable (map PyFeature fl) :: ('d, 'f) pyobj) =
     ([Gil_ensure, GetAttr ''__iter__'', Call [], Iter_next, Gil_release],
      Inr \<lparr>begin_it = PyIter_Next (map PyFeature fl)\<rparr>)
   \<and> next_calls (length fl + m) \<lparr>begin_it = PyIter_Next (map PyFeature fl :: ('d, 'f) pyobj list)\<rparr> =
     (map (\<lambda>f. ([Gil_ensure, Iter_next, Gil_release], Inr (Some f))) fl
        @ replicate m ([], Inr None),
      \<lparr>begin_it = end_it\<rparr>)
   \<and> featureset_next \<lparr>begin_it = end_it :: ('d, 'f) stl_input_iterator\<rparr> =
     (([], Inr None), \<lparr>begin_it = end_it\<rparr>)"
  by (simp only: python_featureset_iterable next_calls_features featureset_next_at_end simp_thms)

text \<open>Three features: the fourth and the fifth call answer the null feature.\<close>

theorem featureset_yields_then_ends_witness:
  "map snd (fst (next_calls 5
      \<lparr>begin_it = PyIter_Next [PyFeature 1, PyFeature 2, PyFeature 3 :: (real, nat) pyobj]\<rparr>)) =
     [Inr (Some 1), Inr (Some 2), Inr (Some 3), Inr None, Inr None]"
proof -
  have n: "length [1::nat, 2, 3] + 2 = 5" by simp
  from featureset_yields_then_ends [where ?'d = real and fl = "[1::nat, 2, 3]" and m = 2, unfolded n]
  show ?thesis by (simp add: numeral_2_eq_2 del: next_calls.simps)
qed

end
